theory Spec2Isabelle
  imports Complex_Main
begin

section \<open>Python values used by the monitor\<close>

text \<open>
  The exceptions of \<^verbatim>\<open>btc_taskbar_monitor.pyw\<close> that the model distinguishes. All of
  them are subclasses of Python's \<^verbatim>\<open>Exception\<close>; \<^verbatim>\<open>JSONDecodeError\<close> is in
  Python a subclass of \<^verbatim>\<open>ValueError\<close>.
\<close>

datatype error =
    TypeError | KeyError | ValueError | JSONDecodeError | AttributeError
  | OSError | OverflowError | ConnectionError

text \<open>
  A Python \<^verbatim>\<open>float\<close> is an IEEE double: a sign, and either a finite dyadic value
  \<open>m * 2 ^ e\<close>, an infinity, or a NaN. \<open>Finite True 0 e\<close> is the negative zero.
\<close>

datatype pyfloat = Finite bool nat int | Infinity bool | NaN

text \<open>
  What \<^verbatim>\<open>json.load\<close> / \<^verbatim>\<open>json.loads\<close> return. An object is the list of the
  items of the resulting \<^verbatim>\<open>dict\<close> in insertion order (its keys are distinct).
\<close>

datatype json =
    JNull | JBool bool | JInt int | JFloat pyfloat | JStr string
  | JArr "json list" | JObj "(string \<times> json) list"

definition bind_err :: "error + 'a \<Rightarrow> ('a \<Rightarrow> error + 'b) \<Rightarrow> error + 'b" where
  "bind_err r f = (case r of Inl e \<Rightarrow> Inl e | Inr v \<Rightarrow> f v)"

text \<open>\<^verbatim>\<open>try: body  except Exception as e: handler\<close>: every modelled error is caught.\<close>

definition try_except :: "error + 'a \<Rightarrow> (error \<Rightarrow> error + 'a) \<Rightarrow> error + 'a" where
  "try_except body handler = (case body of Inl e \<Rightarrow> handler e | Inr v \<Rightarrow> Inr v)"

section \<open>The symbol catalog\<close>

record currency_info =
  symbol :: string
  name :: string

text \<open>
  \<^verbatim>\<open>self.available_currencies\<close>, in the order the dictionary literal lists its keys
  (the \<^verbatim>\<open>icon\<close> glyphs are display text only and are left out).
\<close>

definition available_currencies :: "(string \<times> currency_info) list" where
  "available_currencies =
    [(''BTC'', \<lparr>symbol = ''btcusdt'', name = ''Bitcoin''\<rparr>),
     (''ETH'', \<lparr>symbol = ''ethusdt'', name = ''Ethereum''\<rparr>),
     (''BNB'', \<lparr>symbol = ''bnbusdt'', name = ''BNB''\<rparr>),
     (''TRX'', \<lparr>symbol = ''trxusdt'', name = ''TRON''\<rparr>),
     (''ASTER'', \<lparr>symbol = ''asterusdt'', name = ''Asterdex''\<rparr>)]"

definition catalog :: "string list" where
  "catalog = map fst available_currencies"

section \<open>Persisted settings\<close>

text \<open>
  The settings file: it may not exist (\<open>None\<close>), \<^verbatim>\<open>open\<close> may fail on it, its text may
  not be JSON, or it holds a JSON document. \<^verbatim>\<open>json.dump\<close> followed by \<^verbatim>\<open>json.load\<close>
  is taken to give back the document written. \<open>writable\<close> says whether
  \<^verbatim>\<open>open(..., 'w')\<close> succeeds.
\<close>

datatype settings_file = Unreadable | Unparsable | Doc json

record disk =
  contents :: "settings_file option"
  writable :: bool

record cdata =
  price :: string
  price_change :: pyfloat
  change_24h :: pyfloat

datatype phase = Connecting | Streaming nat | Counting | Sleeping | Ended

record task =
  t_currency :: string
  t_phase :: phase

text \<open>
  The fields of \<^verbatim>\<open>BTCTaskbarMonitor\<close> that the data pipeline reads and writes.
  \<open>sockets\<close> is the store of websocket objects (\<open>True\<close> when closed), which
  \<open>websockets\<close> and the connection tasks refer to by index; \<open>threads\<close> are the
  connection coroutines started by \<^verbatim>\<open>start_websocket_thread\<close>; \<open>close_calls\<close> and
  \<open>gui_queue\<close> record the calls of \<^verbatim>\<open>websocket.close()\<close> issued by the selection
  dialog and the display updates scheduled with \<^verbatim>\<open>root.after\<close>.
\<close>

record monitor =
  selected_currencies :: "string list"
  currency_data :: "string \<Rightarrow> cdata"
  running :: bool
  websockets :: "string \<rightharpoonup> nat"
  sockets :: "bool list"
  reconnect_attempts :: "string \<rightharpoonup> nat"
  currency_vars :: "(string \<times> bool) list"
  threads :: "task list"
  close_calls :: "string list"
  gui_queue :: "string list"

definition max_reconnect_attempts :: nat where
  "max_reconnect_attempts = 5"

subsection \<open>\<^verbatim>\<open>load_settings\<close>\<close>

text \<open>\<^verbatim>\<open>settings.get(key, default)\<close>: only a \<^verbatim>\<open>dict\<close> has the method.\<close>

fun dict_get :: "json \<Rightarrow> string \<Rightarrow> json \<Rightarrow> error + json" where
  "dict_get (JObj kvs) k dflt = Inr (case map_of kvs k of None \<Rightarrow> dflt | Some v \<Rightarrow> v)"
| "dict_get _ k dflt = Inl AttributeError"

text \<open>\<^verbatim>\<open>for c in saved_currencies\<close>: a list yields its elements, a dict its keys, a
  string its characters; anything else is not iterable.\<close>

fun py_iter :: "json \<Rightarrow> error + json list" where
  "py_iter (JArr xs) = Inr xs"
| "py_iter (JObj kvs) = Inr (map (\<lambda>kv. JStr (fst kv)) kvs)"
| "py_iter (JStr s) = Inr (map (\<lambda>ch. JStr [ch]) s)"
| "py_iter _ = Inl TypeError"

text \<open>\<^verbatim>\<open>c in self.available_currencies\<close>, giving the kept element: the keys are
  strings, so only an equal string is a member; a list or dict is unhashable.\<close>

fun keep_if_available :: "json \<Rightarrow> error + string list" where
  "keep_if_available (JStr s) = Inr (if s \<in> set catalog then [s] else [])"
| "keep_if_available (JArr _) = Inl TypeError"
| "keep_if_available (JObj _) = Inl TypeError"
| "keep_if_available _ = Inr []"

text \<open>\<^verbatim>\<open>[c for c in saved_currencies if c in self.available_currencies]\<close>\<close>

fun valid_of :: "json list \<Rightarrow> error + string list" where
  "valid_of [] = Inr []"
| "valid_of (c # cs) =
     bind_err (keep_if_available c) (\<lambda>k. bind_err (valid_of cs) (\<lambda>vs. Inr (k @ vs)))"

definition read_settings :: "disk \<Rightarrow> error + json option" where
  "read_settings d =
     (case contents d of
        None \<Rightarrow> Inr None
      | Some Unreadable \<Rightarrow> Inl OSError
      | Some Unparsable \<Rightarrow> Inl JSONDecodeError
      | Some (Doc j) \<Rightarrow> Inr (Some j))"

text \<open>The body of the \<^verbatim>\<open>try\<close> block: \<open>saved_valid\<close> is the list
  \<^verbatim>\<open>valid_currencies\<close> of the comprehension, \<open>load_body\<close> the value assigned to
  \<^verbatim>\<open>self.selected_currencies\<close>, or the exception raised.\<close>

definition saved_valid :: "json \<Rightarrow> error + string list" where
  "saved_valid settings =
     bind_err (dict_get settings ''selected_currencies'' (JArr [JStr ''BTC'']))
       (\<lambda>saved_currencies. bind_err (py_iter saved_currencies) valid_of)"

definition load_body :: "disk \<Rightarrow> error + string list" where
  "load_body d =
     bind_err (read_settings d) (\<lambda>f.
       case f of
         None \<Rightarrow> Inr [''BTC'']
       | Some settings \<Rightarrow>
           bind_err (saved_valid settings) (\<lambda>valid_currencies.
             Inr (if valid_currencies = [] then [''BTC'']
                  else if length valid_currencies > 3 then take 3 valid_currencies
                  else valid_currencies)))"

definition load_settings :: "disk \<Rightarrow> monitor \<Rightarrow> error + monitor" where
  "load_settings d m =
     try_except
       (bind_err (load_body d) (\<lambda>sel. Inr (m\<lparr>selected_currencies := sel\<rparr>)))
       (\<lambda>e. Inr (m\<lparr>selected_currencies := [''BTC'']\<rparr>))"

subsection \<open>\<^verbatim>\<open>save_settings\<close>\<close>

definition settings_doc :: "string list \<Rightarrow> json" where
  "settings_doc sel =
     JObj [(''selected_currencies'', JArr (map JStr sel)), (''version'', JStr ''3.0'')]"

text \<open>A failing \<^verbatim>\<open>open\<close> is logged and swallowed; the file is then left as it was.\<close>

definition write_settings :: "monitor \<Rightarrow> disk \<Rightarrow> error + disk" where
  "write_settings m d =
     (if writable d then Inr (d\<lparr>contents := Some (Doc (settings_doc (selected_currencies m)))\<rparr>)
      else Inl OSError)"

definition save_settings :: "monitor \<Rightarrow> disk \<Rightarrow> error + disk" where
  "save_settings m d = try_except (write_settings m d) (\<lambda>e. Inr d)"

section \<open>Price formatting\<close>

text \<open>
  The format specification \<^verbatim>\<open>f"{x:,.4f}"\<close> prints the exact value of the double,
  correctly rounded (ties to even) to the given number of decimal places, with a comma
  between every three digits of the integer part.
\<close>

definition digit_char :: "nat \<Rightarrow> char" where
  "digit_char n = ''0123456789'' ! (n mod 10)"

fun zpad :: "nat \<Rightarrow> nat \<Rightarrow> string" where
  "zpad 0 n = []"
| "zpad (Suc d) n = zpad d (n div 10) @ [digit_char n]"

fun digits :: "nat \<Rightarrow> string" where
  "digits n = (if n < 10 then [digit_char n] else digits (n div 10) @ [digit_char n])"

fun group3 :: "nat \<Rightarrow> string" where
  "group3 n = (if n < 1000 then digits n else group3 (n div 1000) @ '','' @ zpad 3 (n mod 1000))"

declare digits.simps [simp del] group3.simps [simp del]

definition round_half_even :: "int \<Rightarrow> int \<Rightarrow> int" where
  "round_half_even a b =
     (let q = a div b; r = a mod b
      in if 2 * r < b then q else if b < 2 * r then q + 1 else if even q then q else q + 1)"

text \<open>\<open>m * 2 ^ e * 10 ^ d\<close>, rounded to an integer.\<close>

definition scaled :: "nat \<Rightarrow> int \<Rightarrow> nat \<Rightarrow> nat" where
  "scaled m e d =
     (if 0 \<le> e then m * 2 ^ nat e * 10 ^ d
      else nat (round_half_even (int m * 10 ^ d) (2 ^ nat (- e))))"

fun format_fixed :: "nat \<Rightarrow> pyfloat \<Rightarrow> string" where
  "format_fixed d NaN = ''nan''"
| "format_fixed d (Infinity s) = (if s then ''-inf'' else ''inf'')"
| "format_fixed d (Finite s m e) =
     (let n = scaled m e d
      in (if s then ''-'' else []) @ group3 (n div 10 ^ d)
         @ (if d = 0 then [] else ''.'' @ zpad d (n mod 10 ^ d)))"

text \<open>\<^verbatim>\<open>new_price < k\<close> for an integer literal \<open>k\<close>: Python compares the exact values,
  and every comparison with a NaN is false.\<close>

fun float_lt :: "pyfloat \<Rightarrow> int \<Rightarrow> bool" where
  "float_lt NaN k = False"
| "float_lt (Infinity s) k = s"
| "float_lt (Finite s m e) k =
     (let v = (if s then - int m else int m)
      in if 0 \<le> e then v * 2 ^ nat e < k else v < k * 2 ^ nat (- e))"

definition format_price :: "pyfloat \<Rightarrow> string" where
  "format_price new_price =
     (if float_lt new_price 10 then format_fixed 4 new_price
      else if float_lt new_price 100 then format_fixed 3 new_price
      else if float_lt new_price 10000 then format_fixed 2 new_price
      else format_fixed 1 new_price)"

text \<open>The real number a finite double stands for.\<close>

fun float_value :: "pyfloat \<Rightarrow> real" where
  "float_value (Finite s m e) =
     (if s then - 1 else 1) * real m * (if 0 \<le> e then 2 ^ nat e else 1 / 2 ^ nat (- e))"
| "float_value _ = 0"

text \<open>The bucket table of the specification, on the value of the price.\<close>

definition table_places :: "real \<Rightarrow> nat" where
  "table_places p = (if p < 10 then 4 else if p < 100 then 3 else if p < 10000 then 2 else 1)"

text \<open>Reading a formatted price: the text before and after the first decimal point, and
  whether an integer part is written in comma-separated groups (a first group of one to
  three digits, then groups of exactly three).\<close>

fun split_at_char :: "char \<Rightarrow> string \<Rightarrow> (string \<times> string) option" where
  "split_at_char c [] = None"
| "split_at_char c (x # xs) =
     (if x = c then Some ([], xs)
      else case split_at_char c xs of None \<Rightarrow> None | Some (a, b) \<Rightarrow> Some (x # a, b))"

definition is_digit :: "char \<Rightarrow> bool" where
  "is_digit c = (c \<in> set ''0123456789'')"

fun comma_groups :: "string \<Rightarrow> string list" where
  "comma_groups [] = [[]]"
| "comma_groups (x # xs) =
     (if x = CHR '','' then [] # comma_groups xs
      else case comma_groups xs of [] \<Rightarrow> [[x]] | g # gs \<Rightarrow> (x # g) # gs)"

definition well_grouped :: "string \<Rightarrow> bool" where
  "well_grouped s =
     (case comma_groups s of
        [] \<Rightarrow> False
      | g # gs \<Rightarrow> 1 \<le> length g \<and> length g \<le> 3 \<and> list_all is_digit g
                 \<and> list_all (\<lambda>h. length h = 3 \<and> list_all is_digit h) gs)"

definition decimal_places_ok :: "string \<Rightarrow> nat \<Rightarrow> bool" where
  "decimal_places_ok s d =
     (case split_at_char CHR ''.'' s of
        None \<Rightarrow> False
      | Some (ip, fp) \<Rightarrow> well_grouped ip \<and> length fp = d \<and> list_all is_digit fp)"

text \<open>The number that the digits of a text write, its commas and decimal point skipped:
  for a text with \<open>d\<close> decimals, the value in units of \<open>10 ^ - d\<close>.\<close>

definition digit_value :: "char \<Rightarrow> nat" where
  "digit_value c = of_char c - 48"

fun read_acc :: "nat \<Rightarrow> string \<Rightarrow> nat" where
  "read_acc a [] = a"
| "read_acc a (c # cs) = read_acc (if is_digit c then 10 * a + digit_value c else a) cs"

definition read_digits :: "string \<Rightarrow> nat" where
  "read_digits s = read_acc 0 s"

text \<open>\<open>m * 2 ^ e\<close> is the double nearest to the decimal \<open>n / 10 ^ k\<close>: the mantissa has
  53 bits and the distance is below half a unit in the last place.\<close>

definition nearest_double :: "nat \<Rightarrow> int \<Rightarrow> nat \<Rightarrow> nat \<Rightarrow> bool" where
  "nearest_double m e n k =
     (2 ^ 52 \<le> m \<and> m < 2 ^ 53 \<and> e < 0
      \<and> 2 * \<bar>int m * 10 ^ k - int n * 2 ^ nat (- e)\<bar> < 10 ^ k)"

section \<open>Decoding a ticker message\<close>

text \<open>
  The conversions \<^verbatim>\<open>float(str)\<close> and \<^verbatim>\<open>float(int)\<close> of the Python runtime are
  parameters of the model: \<open>None\<close> is the \<^verbatim>\<open>ValueError\<close> of a text that is not a
  number, respectively the \<^verbatim>\<open>OverflowError\<close> of an integer beyond the doubles. So is
  the installed \<^verbatim>\<open>websockets\<close> package: \<open>closed_attr\<close> says whether its connection
  objects have the property \<^verbatim>\<open>closed\<close> (those of the legacy protocol do; on the others
  reading it raises \<^verbatim>\<open>AttributeError\<close>).
\<close>

record pylib =
  float_of_str :: "string \<Rightarrow> pyfloat option"
  float_of_int :: "int \<Rightarrow> pyfloat option"
  closed_attr :: bool

text \<open>An inbound websocket message: text that \<^verbatim>\<open>json.loads\<close> rejects, or the value it
  returns.\<close>

datatype message = Malformed | Json json

definition json_loads :: "message \<Rightarrow> error + json" where
  "json_loads msg = (case msg of Malformed \<Rightarrow> Inl JSONDecodeError | Json j \<Rightarrow> Inr j)"

text \<open>\<^verbatim>\<open>data[key]\<close> with a string key.\<close>

fun subscript :: "json \<Rightarrow> string \<Rightarrow> error + json" where
  "subscript (JObj kvs) k = (case map_of kvs k of None \<Rightarrow> Inl KeyError | Some v \<Rightarrow> Inr v)"
| "subscript _ k = Inl TypeError"

text \<open>\<^verbatim>\<open>float(v)\<close>\<close>

fun py_float :: "pylib \<Rightarrow> json \<Rightarrow> error + pyfloat" where
  "py_float lib (JStr s) = (case float_of_str lib s of None \<Rightarrow> Inl ValueError | Some f \<Rightarrow> Inr f)"
| "py_float lib (JInt i) = (case float_of_int lib i of None \<Rightarrow> Inl OverflowError | Some f \<Rightarrow> Inr f)"
| "py_float lib (JFloat f) = Inr f"
| "py_float lib (JBool b) = Inr (Finite False (if b then 1 else 0) 0)"
| "py_float lib _ = Inl TypeError"

text \<open>The statements of the inner \<^verbatim>\<open>try\<close> up to the formatting: the new price text
  and the two change values, or the exception raised.\<close>

definition parse_ticker :: "pylib \<Rightarrow> message \<Rightarrow> error + cdata" where
  "parse_ticker lib msg =
     bind_err (json_loads msg) (\<lambda>data.
     bind_err (bind_err (subscript data ''c'') (py_float lib)) (\<lambda>new_price.
     bind_err (bind_err (subscript data ''P'') (py_float lib)) (\<lambda>pc.
     bind_err (bind_err (subscript data ''P'') (py_float lib)) (\<lambda>ch.
       Inr \<lparr>price = format_price new_price, price_change = pc, change_24h = ch\<rparr>))))"

text \<open>\<^verbatim>\<open>except (KeyError, ValueError, json.JSONDecodeError)\<close>\<close>

definition caught_per_message :: "error \<Rightarrow> bool" where
  "caught_per_message e = (e = KeyError \<or> e = ValueError \<or> e = JSONDecodeError)"

section \<open>Connections\<close>

definition attempts_of :: "monitor \<Rightarrow> string \<Rightarrow> nat" where
  "attempts_of m c = (case reconnect_attempts m c of None \<Rightarrow> 0 | Some n \<Rightarrow> n)"

text \<open>Reading \<^verbatim>\<open>self.websockets[currency].closed\<close> on the socket \<open>h\<close> (every registered
  handle is an index of the store).\<close>

definition read_closed :: "pylib \<Rightarrow> monitor \<Rightarrow> nat \<Rightarrow> error + bool" where
  "read_closed lib m h =
     (if closed_attr lib \<and> h < length (sockets m) then Inr (sockets m ! h)
      else Inl AttributeError)"

definition close_socket :: "nat \<Rightarrow> monitor \<Rightarrow> monitor" where
  "close_socket h m = m\<lparr>sockets := (sockets m)[h := True]\<rparr>"

definition set_phase :: "nat \<Rightarrow> phase \<Rightarrow> monitor \<Rightarrow> monitor" where
  "set_phase i p m = m\<lparr>threads := (threads m)[i := (threads m ! i)\<lparr>t_phase := p\<rparr>]\<rparr>"

text \<open>
  \<^verbatim>\<open>start_websocket_thread\<close>: a new thread runs \<^verbatim>\<open>connect_binance_websocket\<close>, whose
  first statement looks the currency up in the catalog, outside every \<^verbatim>\<open>try\<close>: for an
  unknown code the thread ends there with a \<^verbatim>\<open>KeyError\<close>.
\<close>

definition new_task :: "string \<Rightarrow> task" where
  "new_task c = \<lparr>t_currency = c, t_phase = (if c \<in> set catalog then Connecting else Ended)\<rparr>"

definition start_websocket_thread :: "string \<Rightarrow> monitor \<Rightarrow> monitor" where
  "start_websocket_thread c m = m\<lparr>threads := threads m @ [new_task c]\<rparr>"

text \<open>
  The handler \<^verbatim>\<open>except Exception\<close> of \<^verbatim>\<open>connect_binance_websocket\<close>, run by
  task \<open>i\<close>. Every task runs in a thread of its own and nothing locks the counters, so
  other threads can run between the test of the \<^verbatim>\<open>if\<close> and the assignment that counts
  the attempt: the test (\<open>on_connection_error\<close>) and the assignment
  (\<open>count_attempt\<close>, which reads the counter again) are two steps, with the task in
  phase \<open>Counting\<close> between them. When the test fails the task publishes the error
  marker and returns.
\<close>

definition on_connection_error :: "nat \<Rightarrow> monitor \<Rightarrow> monitor" where
  "on_connection_error i m =
     (let c = t_currency (threads m ! i)
      in if running m \<and> c \<in> set (selected_currencies m)
            \<and> attempts_of m c < max_reconnect_attempts
         then set_phase i Counting m
         else set_phase i Ended
                (m\<lparr>currency_data := (currency_data m)(c := (currency_data m c)\<lparr>price := ''Error''\<rparr>),
                   gui_queue := gui_queue m @ [c]\<rparr>))"

definition count_attempt :: "nat \<Rightarrow> monitor \<Rightarrow> monitor" where
  "count_attempt i m =
     (let c = t_currency (threads m ! i)
      in set_phase i Sleeping
           (m\<lparr>reconnect_attempts := (reconnect_attempts m)(c \<mapsto> attempts_of m c + 1)\<rparr>))"

text \<open>\<^verbatim>\<open>websockets.connect\<close> succeeded: the new socket is registered and the attempt
  counter reset.\<close>

definition on_connected :: "nat \<Rightarrow> monitor \<Rightarrow> monitor" where
  "on_connected i m =
     (let c = t_currency (threads m ! i); h = length (sockets m)
      in set_phase i (Streaming h)
           (m\<lparr>sockets := sockets m @ [False],
              websockets := (websockets m)(c \<mapsto> h),
              reconnect_attempts := (reconnect_attempts m)(c \<mapsto> 0)\<rparr>))"

text \<open>
  One iteration of \<^verbatim>\<open>async for message in websocket\<close> by task \<open>i\<close>, streaming on
  socket \<open>h\<close>. Leaving the \<^verbatim>\<open>async with\<close> block, by \<^verbatim>\<open>break\<close> or by an exception,
  closes the socket. An exception of the inner \<^verbatim>\<open>try\<close> that its \<^verbatim>\<open>except\<close> clause
  does not list propagates to the outer handler.
\<close>

definition on_message :: "pylib \<Rightarrow> nat \<Rightarrow> nat \<Rightarrow> message \<Rightarrow> monitor \<Rightarrow> monitor" where
  "on_message lib i h msg m =
     (let c = t_currency (threads m ! i)
      in if \<not> running m \<or> c \<notin> set (selected_currencies m)
         then set_phase i Ended (close_socket h m)
         else case parse_ticker lib msg of
                Inr tick \<Rightarrow> m\<lparr>currency_data := (currency_data m)(c := tick),
                             gui_queue := gui_queue m @ [c]\<rparr>
              | Inl e \<Rightarrow> if caught_per_message e then m
                         else on_connection_error i (close_socket h m))"

section \<open>Selection changes and manual operations\<close>

text \<open>The selection dialog: one checkbox per catalog entry, in catalog order.\<close>

definition show_currency_selector :: "monitor \<Rightarrow> monitor" where
  "show_currency_selector m =
     m\<lparr>currency_vars := map (\<lambda>c. (c, c \<in> set (selected_currencies m))) catalog\<rparr>"

definition toggle :: "string \<Rightarrow> monitor \<Rightarrow> monitor" where
  "toggle c m =
     m\<lparr>currency_vars := map (\<lambda>kv. (fst kv, if fst kv = c then \<not> snd kv else snd kv))
                             (currency_vars m)\<rparr>"

definition new_selection_of :: "(string \<times> bool) list \<Rightarrow> string list" where
  "new_selection_of vars = map fst (filter snd vars)"

text \<open>
  The test of \<^verbatim>\<open>start_websocket_connections\<close>: no websocket is registered for the
  currency, or the registered one is closed, where
  \<^verbatim>\<open>try: websocket_closed = ... .closed  except: websocket_closed = True\<close> takes a
  failing read as closed.
\<close>

definition needs_start :: "pylib \<Rightarrow> monitor \<Rightarrow> string \<Rightarrow> bool" where
  "needs_start lib m c =
     (case websockets m c of
        None \<Rightarrow> True
      | Some h \<Rightarrow> (case read_closed lib m h of Inl e \<Rightarrow> True | Inr websocket_closed \<Rightarrow> websocket_closed))"

fun start_loop :: "pylib \<Rightarrow> string list \<Rightarrow> monitor \<Rightarrow> monitor" where
  "start_loop lib [] m = m"
| "start_loop lib (c # cs) m =
     start_loop lib cs
       (if needs_start lib m c
        then start_websocket_thread c (m\<lparr>reconnect_attempts := (reconnect_attempts m)(c \<mapsto> 0)\<rparr>)
        else m)"

definition start_websocket_connections :: "pylib \<Rightarrow> monitor \<Rightarrow> monitor" where
  "start_websocket_connections lib m = start_loop lib (selected_currencies m) m"

text \<open>
  The first loop of \<^verbatim>\<open>apply_currency_selection\<close>. The dialog runs in the Tk thread,
  where no event loop is running: \<^verbatim>\<open>asyncio.create_task\<close> raises there, the bare
  \<^verbatim>\<open>except\<close> swallows it, and the socket stays open until its own task leaves the
  receive loop. The model records the call.
\<close>

fun close_loop :: "string list \<Rightarrow> string list \<Rightarrow> monitor \<Rightarrow> monitor" where
  "close_loop [] new_selection m = m"
| "close_loop (c # cs) new_selection m =
     close_loop cs new_selection
       (if c \<notin> set new_selection \<and> websockets m c \<noteq> None
        then m\<lparr>close_calls := close_calls m @ [c]\<rparr> else m)"

text \<open>\<^verbatim>\<open>apply_currency_selection\<close> (the label and window calls are display only).\<close>

definition apply_currency_selection ::
    "pylib \<Rightarrow> monitor \<times> disk \<Rightarrow> error + monitor \<times> disk" where
  "apply_currency_selection lib md =
     (let m = fst md; d = snd md; new_selection = new_selection_of (currency_vars m)
      in if 1 \<le> length new_selection \<and> length new_selection \<le> 3
         then let m1 = close_loop (selected_currencies m) new_selection m;
                  m2 = m1\<lparr>selected_currencies := new_selection\<rparr>
              in bind_err (save_settings m2 d)
                   (\<lambda>d'. Inr (start_websocket_connections lib m2, d'))
         else Inr (m, d))"

fun reconnect_loop :: "string list \<Rightarrow> monitor \<Rightarrow> monitor" where
  "reconnect_loop [] m = m"
| "reconnect_loop (c # cs) m =
     reconnect_loop cs
       (start_websocket_thread c (m\<lparr>reconnect_attempts := (reconnect_attempts m)(c \<mapsto> 0)\<rparr>))"

definition reconnect :: "monitor \<Rightarrow> monitor" where
  "reconnect m = reconnect_loop (selected_currencies m) m"

text \<open>\<^verbatim>\<open>quit_application\<close>: its \<^verbatim>\<open>close\<close> calls fail like those of the dialog.\<close>

definition quit_application :: "monitor \<Rightarrow> monitor" where
  "quit_application m = m\<lparr>running := False\<rparr>"

section \<open>The monitor as a transition system\<close>

text \<open>
  A connection coroutine is suspended at \<^verbatim>\<open>websockets.connect\<close>, at the next message
  of \<^verbatim>\<open>async for\<close>, or at \<^verbatim>\<open>asyncio.sleep\<close>, and its thread can be preempted in
  the handler before it counts the attempt (\<open>Count\<close> resumes it there); an event
  resumes one task, or is an operation of the user interface. An event that does not
  fit the phase of its task cannot occur and leaves the state as it is.
\<close>

datatype event =
    ConnectOK nat | ConnectFail nat | Receive nat message | StreamEnd nat | StreamError nat
  | Count nat | SleepOver nat | OpenSelector | Toggle string | ApplySelection
  | StartConnections | Reconnect | Quit

definition phase_of :: "monitor \<Rightarrow> nat \<Rightarrow> phase" where
  "phase_of m i = (if i < length (threads m) then t_phase (threads m ! i) else Ended)"

definition task_step :: "pylib \<Rightarrow> event \<Rightarrow> monitor \<Rightarrow> monitor" where
  "task_step lib ev m =
     (case ev of
        ConnectOK i \<Rightarrow> (if phase_of m i = Connecting then on_connected i m else m)
      | ConnectFail i \<Rightarrow> (if phase_of m i = Connecting then on_connection_error i m else m)
      | Receive i msg \<Rightarrow>
          (case phase_of m i of Streaming h \<Rightarrow> on_message lib i h msg m | _ \<Rightarrow> m)
      | StreamEnd i \<Rightarrow>
          (case phase_of m i of Streaming h \<Rightarrow> set_phase i Ended (close_socket h m) | _ \<Rightarrow> m)
      | StreamError i \<Rightarrow>
          (case phase_of m i of Streaming h \<Rightarrow> on_connection_error i (close_socket h m) | _ \<Rightarrow> m)
      | Count i \<Rightarrow> (if phase_of m i = Counting then count_attempt i m else m)
      | SleepOver i \<Rightarrow> (if phase_of m i = Sleeping then set_phase i Connecting m else m)
      | OpenSelector \<Rightarrow> show_currency_selector m
      | Toggle c \<Rightarrow> toggle c m
      | StartConnections \<Rightarrow> start_websocket_connections lib m
      | Reconnect \<Rightarrow> reconnect m
      | Quit \<Rightarrow> quit_application m
      | ApplySelection \<Rightarrow> m)"

text \<open>Pressing the Apply button: an exception of the callback would leave Tk running.\<close>

definition apply_pressed :: "pylib \<Rightarrow> monitor \<times> disk \<Rightarrow> monitor \<times> disk" where
  "apply_pressed lib md =
     (case apply_currency_selection lib md of Inr r \<Rightarrow> r | Inl e \<Rightarrow> md)"

definition step :: "pylib \<Rightarrow> event \<Rightarrow> monitor \<times> disk \<Rightarrow> monitor \<times> disk" where
  "step lib ev md =
     (case ev of
        ApplySelection \<Rightarrow> apply_pressed lib md
      | _ \<Rightarrow> (task_step lib ev (fst md), snd md))"

fun run :: "pylib \<Rightarrow> event list \<Rightarrow> monitor \<times> disk \<Rightarrow> monitor \<times> disk" where
  "run lib [] md = md"
| "run lib (ev # evs) md = run lib evs (step lib ev md)"

text \<open>The state after \<^verbatim>\<open>__init__\<close>, before the settings are loaded.\<close>

definition initial_cdata :: cdata where
  "initial_cdata = \<lparr>price = ''Loading...'', price_change = Finite False 0 0,
                    change_24h = Finite False 0 0\<rparr>"

definition fresh_monitor :: monitor where
  "fresh_monitor =
     \<lparr>selected_currencies = [], currency_data = (\<lambda>c. initial_cdata), running = True,
      websockets = Map.empty, sockets = [], reconnect_attempts = Map.empty,
      currency_vars = [], threads = [], close_calls = [], gui_queue = []\<rparr>"

text \<open>The connections that are live: tasks that have not returned.\<close>

definition live_connections :: "monitor \<Rightarrow> string \<Rightarrow> nat" where
  "live_connections m c =
     length (filter (\<lambda>t. t_currency t = c \<and> t_phase t \<noteq> Ended) (threads m))"

text \<open>The data-model invariant of a selection.\<close>

definition valid_selection :: "string list \<Rightarrow> bool" where
  "valid_selection sel =
     (1 \<le> length sel \<and> length sel \<le> 3 \<and> list_all (\<lambda>c. c \<in> set catalog) sel \<and> distinct sel)"

text \<open>The inputs on which \<^verbatim>\<open>load_settings\<close> has nothing valid to restore: no file, a
  file that cannot be read or parsed, a document from which the comprehension raises,
  or one whose valid codes are the empty list.\<close>

definition falls_back :: "disk \<Rightarrow> bool" where
  "falls_back d =
     (case contents d of
        None \<Rightarrow> True
      | Some Unreadable \<Rightarrow> True
      | Some Unparsable \<Rightarrow> True
      | Some (Doc j) \<Rightarrow> (case saved_valid j of Inl e \<Rightarrow> True | Inr vs \<Rightarrow> vs = []))"

text \<open>A settings file listing the given codes.\<close>

definition disk_with :: "string list \<Rightarrow> disk" where
  "disk_with codes = \<lparr>contents = Some (Doc (settings_doc codes)), writable = True\<rparr>"

text \<open>The connections started and the close calls issued between two states.\<close>

definition started_between :: "monitor \<Rightarrow> monitor \<Rightarrow> string list" where
  "started_between m m' = map t_currency (drop (length (threads m)) (threads m'))"

definition closed_between :: "monitor \<Rightarrow> monitor \<Rightarrow> string list" where
  "closed_between m m' = drop (length (close_calls m)) (close_calls m')"

text \<open>Runtimes for the examples: both convert the two texts of the specification's
  sample ticker, reject every other text and overflow on every integer; the connection
  objects of the first have the property \<^verbatim>\<open>closed\<close>, those of the second do not.\<close>

definition sample_lib :: pylib where
  "sample_lib =
     \<lparr>float_of_str = (\<lambda>s. if s = ''67890.12'' then Some (Finite False 4665373521944248 (- 36))
                           else if s = ''1.50'' then Some (Finite False 6755399441055744 (- 52))
                           else None),
      float_of_int = (\<lambda>i. None),
      closed_attr = True\<rparr>"

definition modern_lib :: pylib where
  "modern_lib = sample_lib\<lparr>closed_attr := False\<rparr>"

text \<open>Example states: the monitor right after \<^verbatim>\<open>run\<close> started the connection of the
  default selection, and the selection dialog opened on it.\<close>

definition btc_connecting :: monitor where
  "btc_connecting =
     start_websocket_connections sample_lib (fresh_monitor\<lparr>selected_currencies := [''BTC'']\<rparr>)"

definition btc_dialog :: monitor where
  "btc_dialog = show_currency_selector btc_connecting"

definition no_file :: disk where
  "no_file = \<lparr>contents = None, writable = True\<rparr>"



text \<open>Example states: the default connection streaming on its socket, the selection
  dialog opened then, and a ticker message whose price field is \<^verbatim>\<open>null\<close>.\<close>

definition btc_streaming :: monitor where
  "btc_streaming = on_connected 0 btc_connecting"

definition streaming_dialog :: monitor where
  "streaming_dialog = show_currency_selector btc_streaming"

definition null_price_message :: message where
  "null_price_message = Json (JObj [(''c'', JNull), (''P'', JStr ''1.50'')])"



text \<open>No two live tasks serve the same symbol; and a run in which that holds of every
  state an event is taken from.\<close>

definition single_connections :: "monitor \<Rightarrow> bool" where
  "single_connections m =
     (\<forall>i < length (threads m). \<forall>j < length (threads m).
        t_currency (threads m ! i) = t_currency (threads m ! j)
        \<and> t_phase (threads m ! i) \<noteq> Ended \<and> t_phase (threads m ! j) \<noteq> Ended
        \<longrightarrow> i = j)"

fun singly :: "pylib \<Rightarrow> event list \<Rightarrow> monitor \<times> disk \<Rightarrow> bool" where
  "singly lib [] md = True"
| "singly lib (ev # evs) md = (single_connections (fst md) \<and> singly lib evs (step lib ev md))"




definition racing_failures :: "event list" where
  "racing_failures =
     Reconnect # concat (replicate 4 [ConnectFail 0, Count 0, SleepOver 0])
       @ [ConnectFail 0, ConnectFail 1, Count 0, Count 1]"

section \<open>Settings: loading, saving and the catalog\<close>

lemma catalog_eq: "catalog = [''BTC'', ''ETH'', ''BNB'', ''TRX'', ''ASTER'']"
  by (simp add: catalog_def available_currencies_def)

lemma valid_of_in_catalog: "valid_of xs = Inr vs \<Longrightarrow> set vs \<subseteq> set catalog"
proof (induction xs arbitrary: vs)
  case Nil then show ?case by simp
next
  case (Cons x xs)
  then show ?case
    by (cases x) (auto simp: bind_err_def split: sum.splits if_splits)
qed

lemma valid_of_strs: "valid_of (map JStr cs) = Inr (filter (\<lambda>c. c \<in> set catalog) cs)"
  by (induction cs) (simp_all add: bind_err_def)

lemma saved_valid_doc:
  "saved_valid (settings_doc codes) = Inr (filter (\<lambda>c. c \<in> set catalog) codes)"
  by (simp add: saved_valid_def settings_doc_def bind_err_def valid_of_strs)

lemma load_body_shape:
  assumes "load_body d = Inr sel"
  shows "sel \<noteq> [] \<and> length sel \<le> 3 \<and> set sel \<subseteq> set catalog"
proof (cases "read_settings d")
  case (Inl e)
  with assms show ?thesis by (simp add: load_body_def bind_err_def)
next
  case (Inr f)
  show ?thesis
  proof (cases f)
    case None
    with Inr assms show ?thesis by (auto simp: load_body_def bind_err_def catalog_eq)
  next
    case (Some settings)
    show ?thesis
    proof (cases "saved_valid settings")
      case (Inl e)
      with Inr Some assms show ?thesis by (simp add: load_body_def bind_err_def)
    next
      case vs: (Inr vs)
      then obtain items where "valid_of items = Inr vs"
        by (auto simp: saved_valid_def bind_err_def split: sum.splits)
      then have sub: "set vs \<subseteq> set catalog" by (rule valid_of_in_catalog)
      have "set (take 3 vs) \<subseteq> set vs" by (rule set_take_subset)
      with sub have sub3: "set (take 3 vs) \<subseteq> set catalog" by blast
      from Inr Some vs assms
      have "sel = (if vs = [] then [''BTC''] else if length vs > 3 then take 3 vs else vs)"
        by (simp add: load_body_def bind_err_def)
      with sub sub3 show ?thesis by (auto simp: catalog_eq)
    qed
  qed
qed

lemma load_settings_result:
  "load_settings d m =
     Inr (m\<lparr>selected_currencies := (case load_body d of Inl e \<Rightarrow> [''BTC''] | Inr sel \<Rightarrow> sel)\<rparr>)"
  by (simp add: load_settings_def try_except_def bind_err_def split: sum.splits)

text \<open>
  Claim C4. \<^verbatim>\<open>load_settings\<close> never raises: on every disk it returns normally, every
  code of the selection it sets is a key of the catalog, and when the file is missing,
  cannot be read or parsed, or has no valid code, the selection is the default
  \<^verbatim>\<open>['BTC']\<close>.
\<close>

theorem load_settings_never_raises:
  "\<exists>m'. load_settings d m = Inr m'
     \<and> list_all (\<lambda>c. c \<in> set catalog) (selected_currencies m')
     \<and> (falls_back d \<longrightarrow> selected_currencies m' = [''BTC''])"
proof -
  let ?sel = "case load_body d of Inl e \<Rightarrow> [''BTC''] | Inr sel \<Rightarrow> sel"
  have mem: "set ?sel \<subseteq> set catalog"
  proof (cases "load_body d")
    case (Inl e) then show ?thesis by (simp add: catalog_eq)
  next
    case (Inr sel) with load_body_shape[OF Inr] show ?thesis by simp
  qed
  have fb: "falls_back d \<Longrightarrow> ?sel = [''BTC'']"
    by (auto simp: falls_back_def load_body_def read_settings_def bind_err_def
             split: option.splits settings_file.splits sum.splits)
  from mem fb show ?thesis
    by (auto simp: load_settings_result list_all_iff)
qed

theorem load_settings_never_raises_witness:
  "falls_back (disk_with [''DOGE'', ''XRP''])
   \<and> load_settings (disk_with [''DOGE'', ''XRP'']) fresh_monitor
       = Inr (fresh_monitor\<lparr>selected_currencies := [''BTC'']\<rparr>)"
  using load_settings_never_raises [of "disk_with [''DOGE'', ''XRP'']" fresh_monitor]
  by (auto simp: falls_back_def disk_with_def settings_doc_def saved_valid_def bind_err_def
        catalog_eq load_settings_result load_body_def read_settings_def)

text \<open>
  Claim C10. When the settings file lists codes of which more than three are in the
  catalog, \<^verbatim>\<open>load_settings\<close> selects the first three valid codes, in the order of the
  file, instead of the default.
\<close>

theorem load_truncates_to_three:
  assumes "contents d = Some (Doc (JObj kvs))"
    and "map_of kvs ''selected_currencies'' = Some (JArr (map JStr codes))"
    and "3 < length (filter (\<lambda>c. c \<in> set catalog) codes)"
  shows "load_settings d m
         = Inr (m\<lparr>selected_currencies := take 3 (filter (\<lambda>c. c \<in> set catalog) codes)\<rparr>)"
proof -
  have "saved_valid (JObj kvs) = Inr (filter (\<lambda>c. c \<in> set catalog) codes)"
    using assms(2) by (simp add: saved_valid_def bind_err_def valid_of_strs)
  with assms(1,3) have "load_body d = Inr (take 3 (filter (\<lambda>c. c \<in> set catalog) codes))"
    by (auto simp: load_body_def read_settings_def bind_err_def)
  then show ?thesis by (simp add: load_settings_result)
qed

theorem load_truncates_to_three_witness:
  "contents (disk_with [''TRX'', ''DOGE'', ''BTC'', ''ASTER'', ''ETH'']) = Some (Doc (JObj
      [(''selected_currencies'', JArr (map JStr [''TRX'', ''DOGE'', ''BTC'', ''ASTER'', ''ETH''])),
       (''version'', JStr ''3.0'')]))
   \<and> 3 < length (filter (\<lambda>c. c \<in> set catalog) [''TRX'', ''DOGE'', ''BTC'', ''ASTER'', ''ETH''])
   \<and> load_settings (disk_with [''TRX'', ''DOGE'', ''BTC'', ''ASTER'', ''ETH'']) fresh_monitor
       = Inr (fresh_monitor\<lparr>selected_currencies := [''TRX'', ''BTC'', ''ASTER'']\<rparr>)"
  using load_truncates_to_three [of "disk_with [''TRX'', ''DOGE'', ''BTC'', ''ASTER'', ''ETH'']"
      "[(''selected_currencies'', JArr (map JStr [''TRX'', ''DOGE'', ''BTC'', ''ASTER'', ''ETH''])),
       (''version'', JStr ''3.0'')]" "[''TRX'', ''DOGE'', ''BTC'', ''ASTER'', ''ETH'']" fresh_monitor]
  by (simp add: disk_with_def settings_doc_def catalog_eq)



section \<open>Selection changes\<close>

lemma close_loop_eq:
  "close_loop old new m =
     m\<lparr>close_calls := close_calls m @ filter (\<lambda>c. c \<notin> set new \<and> websockets m c \<noteq> None) old\<rparr>"
  by (induction old arbitrary: m) simp_all

lemma needs_start_upd [simp]:
  "needs_start lib (start_websocket_thread c (m\<lparr>reconnect_attempts := r\<rparr>)) = needs_start lib m"
  by (rule ext) (simp add: needs_start_def start_websocket_thread_def read_closed_def split: option.splits sum.splits)

lemma start_loop_threads:
  "threads (start_loop lib cs m) = threads m @ map new_task (filter (needs_start lib m) cs)"
proof (induction cs arbitrary: m)
  case Nil then show ?case by simp
next
  case (Cons c cs)
  have "filter (needs_start lib (start_websocket_thread c (m\<lparr>reconnect_attempts := (reconnect_attempts m)(c \<mapsto> 0)\<rparr>))) cs
        = filter (needs_start lib m) cs" by simp
  then show ?case
    by (simp add: Cons.IH) (simp add: start_websocket_thread_def)
qed

lemma start_loop_unchanged:
  "selected_currencies (start_loop lib cs m) = selected_currencies m"
  "close_calls (start_loop lib cs m) = close_calls m"
  "websockets (start_loop lib cs m) = websockets m"
  "sockets (start_loop lib cs m) = sockets m"
  "currency_data (start_loop lib cs m) = currency_data m"
  "running (start_loop lib cs m) = running m"
  by (induction cs arbitrary: m; simp add: start_websocket_thread_def)+

lemma save_settings_result:
  "save_settings m d =
     Inr (if writable d then d\<lparr>contents := Some (Doc (settings_doc (selected_currencies m)))\<rparr> else d)"
  by (simp add: save_settings_def write_settings_def try_except_def)

lemma apply_result:
  "apply_currency_selection lib (m, d) =
     Inr (let new = new_selection_of (currency_vars m)
          in if 1 \<le> length new \<and> length new \<le> 3
             then (start_websocket_connections lib
                     ((close_loop (selected_currencies m) new m)\<lparr>selected_currencies := new\<rparr>),
                   if writable d then d\<lparr>contents := Some (Doc (settings_doc new))\<rparr> else d)
             else (m, d))"
  by (simp add: apply_currency_selection_def Let_def save_settings_result bind_err_def close_loop_eq)

lemma new_selection_sub:
  "set (new_selection_of vars) \<subseteq> set (map fst vars)"
  by (auto simp: new_selection_of_def)

lemma new_selection_distinct:
  "distinct (map fst vars) \<Longrightarrow> distinct (new_selection_of vars)"
  by (simp add: new_selection_of_def distinct_map_filter)

lemma vars_keys_selector: "map fst (currency_vars (show_currency_selector m)) = catalog"
  by (simp add: show_currency_selector_def comp_def)

lemma vars_keys_toggle: "map fst (currency_vars (toggle c m)) = map fst (currency_vars m)"
  by (simp add: toggle_def comp_def)

lemma btc_connecting_eq:
  "btc_connecting = fresh_monitor\<lparr>selected_currencies := [''BTC''],
      reconnect_attempts := [''BTC'' \<mapsto> 0],
      threads := [\<lparr>t_currency = ''BTC'', t_phase = Connecting\<rparr>]\<rparr>"
  by (simp add: btc_connecting_def start_websocket_connections_def needs_start_def
        fresh_monitor_def start_websocket_thread_def new_task_def catalog_eq)

lemma btc_connecting_fields:
  "selected_currencies btc_connecting = [''BTC'']"
  "running btc_connecting"
  "threads btc_connecting = [\<lparr>t_currency = ''BTC'', t_phase = Connecting\<rparr>]"
  "reconnect_attempts btc_connecting = [''BTC'' \<mapsto> 0]"
  "websockets btc_connecting = Map.empty"
  "sockets btc_connecting = []"
  by (simp_all add: btc_connecting_eq fresh_monitor_def)

lemma btc_streaming_fields:
  "selected_currencies btc_streaming = [''BTC'']"
  "running btc_streaming"
  "threads btc_streaming = [\<lparr>t_currency = ''BTC'', t_phase = Streaming 0\<rparr>]"
  "reconnect_attempts btc_streaming = [''BTC'' \<mapsto> 0]"
  "websockets btc_streaming = [''BTC'' \<mapsto> 0]"
  "sockets btc_streaming = [False]"
  "close_calls btc_streaming = []"
  by (simp_all add: btc_streaming_def on_connected_def Let_def set_phase_def btc_connecting_fields)
     (simp add: btc_connecting_eq fresh_monitor_def)

lemma streaming_dialog_fields:
  "selected_currencies streaming_dialog = [''BTC'']"
  "websockets streaming_dialog = [''BTC'' \<mapsto> 0]"
  "sockets streaming_dialog = [False]"
  "currency_vars streaming_dialog =
     [(''BTC'', True), (''ETH'', False), (''BNB'', False), (''TRX'', False), (''ASTER'', False)]"
  by (simp_all add: streaming_dialog_def show_currency_selector_def btc_streaming_fields catalog_eq)

lemma btc_dialog_vars:
  "currency_vars btc_dialog =
     [(''BTC'', True), (''ETH'', False), (''BNB'', False), (''TRX'', False), (''ASTER'', False)]"
  by (simp add: btc_dialog_def show_currency_selector_def btc_connecting_eq catalog_eq)

lemma btc_dialog_fields:
  "selected_currencies btc_dialog = [''BTC'']"
  "websockets btc_dialog = Map.empty"
  "threads btc_dialog = [\<lparr>t_currency = ''BTC'', t_phase = Connecting\<rparr>]"
  "close_calls btc_dialog = []"
  by (simp_all add: btc_dialog_def show_currency_selector_def btc_connecting_eq fresh_monitor_def)

lemma toggle_fields [simp]:
  "selected_currencies (toggle c m) = selected_currencies m"
  "websockets (toggle c m) = websockets m"
  "sockets (toggle c m) = sockets m"
  "threads (toggle c m) = threads m"
  "close_calls (toggle c m) = close_calls m"
  by (simp_all add: toggle_def)

lemma candidate_in_catalog:
  assumes "map fst (currency_vars m) = catalog"
  shows "set (new_selection_of (currency_vars m)) \<subseteq> set catalog
    \<and> distinct (new_selection_of (currency_vars m))"
proof -
  have "set (new_selection_of (currency_vars m)) \<subseteq> set catalog"
    using new_selection_sub [of "currency_vars m"] assms by simp
  moreover have "distinct catalog" by (simp add: catalog_eq)
  with assms have "distinct (new_selection_of (currency_vars m))"
    by (simp add: new_selection_distinct)
  ultimately show ?thesis by blast
qed

lemma apply_ignored:
  "length (new_selection_of (currency_vars m)) = 0 \<or> 3 < length (new_selection_of (currency_vars m))
   \<Longrightarrow> apply_currency_selection lib (m, d) = Inr (m, d)"
  by (auto simp: apply_result Let_def)

lemma apply_accepted:
  "1 \<le> length (new_selection_of (currency_vars m)) \<and> length (new_selection_of (currency_vars m)) \<le> 3
   \<Longrightarrow> \<exists>m'. apply_currency_selection lib (m, d)
            = Inr (m', if writable d
                       then d\<lparr>contents := Some (Doc (settings_doc (new_selection_of (currency_vars m))))\<rparr>
                       else d)
          \<and> selected_currencies m' = new_selection_of (currency_vars m)"
  by (simp add: apply_result Let_def start_websocket_connections_def start_loop_unchanged)

text \<open>
  Claim C5 (amended). The candidate of \<^verbatim>\<open>apply_currency_selection\<close> is read from the
  checkboxes of the catalog, so it holds catalog codes only, without duplicates. A
  candidate of length 0 or above 3 is ignored: the call returns normally, with no error
  result, and leaves the monitor and the settings file as they were. A candidate of
  length 1 to 3 becomes the selection and is written to the settings file when the file
  can be written.
\<close>

theorem apply_selection_bounds:
  assumes "map fst (currency_vars m) = catalog"
  shows "set (new_selection_of (currency_vars m)) \<subseteq> set catalog
    \<and> distinct (new_selection_of (currency_vars m))
    \<and> (length (new_selection_of (currency_vars m)) = 0 \<or> 3 < length (new_selection_of (currency_vars m))
         \<longrightarrow> apply_currency_selection lib (m, d) = Inr (m, d))
    \<and> (1 \<le> length (new_selection_of (currency_vars m)) \<and> length (new_selection_of (currency_vars m)) \<le> 3
         \<longrightarrow> (\<exists>m'. apply_currency_selection lib (m, d)
                 = Inr (m', if writable d
                            then d\<lparr>contents := Some (Doc (settings_doc (new_selection_of (currency_vars m))))\<rparr>
                            else d)
               \<and> selected_currencies m' = new_selection_of (currency_vars m)))"
  using candidate_in_catalog [OF assms] apply_ignored [where m = m and d = d and lib = lib]
    apply_accepted [where m = m and d = d and lib = lib]
  by blast

theorem apply_selection_bounds_witness:
  "map fst (currency_vars (toggle ''ETH'' btc_dialog)) = catalog
   \<and> new_selection_of (currency_vars (toggle ''ETH'' btc_dialog)) = [''BTC'', ''ETH'']
   \<and> (\<exists>m'. apply_currency_selection sample_lib (toggle ''ETH'' btc_dialog, no_file)
              = Inr (m', disk_with [''BTC'', ''ETH''])
            \<and> selected_currencies m' = [''BTC'', ''ETH''])
   \<and> map fst (currency_vars (toggle ''BTC'' btc_dialog)) = catalog
   \<and> new_selection_of (currency_vars (toggle ''BTC'' btc_dialog)) = []
   \<and> apply_currency_selection sample_lib (toggle ''BTC'' btc_dialog, no_file)
        = Inr (toggle ''BTC'' btc_dialog, no_file)"
proof -
  have k1: "map fst (currency_vars (toggle ''ETH'' btc_dialog)) = catalog"
    and k2: "map fst (currency_vars (toggle ''BTC'' btc_dialog)) = catalog"
    by (simp_all add: vars_keys_toggle btc_dialog_def vars_keys_selector)
  have n1: "new_selection_of (currency_vars (toggle ''ETH'' btc_dialog)) = [''BTC'', ''ETH'']"
    and n2: "new_selection_of (currency_vars (toggle ''BTC'' btc_dialog)) = []"
    by (simp_all add: toggle_def btc_dialog_vars new_selection_of_def)
  from apply_selection_bounds [OF k1, where d = no_file and lib = sample_lib]
    apply_selection_bounds [OF k2, where d = no_file and lib = sample_lib]
    k1 k2 n1 n2
  show ?thesis by (simp add: no_file_def disk_with_def)
qed

text \<open>
  Claim C5 as stated fails: with no box checked the candidate is empty, and the call
  returns normally instead of reporting a validation error.
\<close>

theorem apply_rejection_is_silent:
  "new_selection_of (currency_vars (toggle ''BTC'' btc_dialog)) = []
   \<and> \<not> isl (apply_currency_selection sample_lib (toggle ''BTC'' btc_dialog, no_file))
   \<and> apply_currency_selection sample_lib (toggle ''BTC'' btc_dialog, no_file)
       = Inr (toggle ''BTC'' btc_dialog, no_file)"
  by (simp add: apply_result Let_def toggle_def btc_dialog_vars new_selection_of_def)

lemma t_currency_new_task: "map (t_currency \<circ> new_task) cs = cs"
  by (induction cs) (simp_all add: new_task_def)

lemma needs_start_after_close:
  "needs_start lib (m\<lparr>close_calls := x, selected_currencies := s\<rparr>) = needs_start lib m"
  by (rule ext) (simp add: needs_start_def read_closed_def split: option.splits sum.splits)

lemma apply_calls:
  assumes "1 \<le> length (new_selection_of (currency_vars m))"
    and "length (new_selection_of (currency_vars m)) \<le> 3"
  shows "\<exists>m' d'. apply_currency_selection lib (m, d) = Inr (m', d')
     \<and> closed_between m m'
         = filter (\<lambda>c. c \<notin> set (new_selection_of (currency_vars m)) \<and> websockets m c \<noteq> None)
             (selected_currencies m)
     \<and> started_between m m' = filter (needs_start lib m) (new_selection_of (currency_vars m))"
  using assms
  by (simp add: apply_result Let_def start_websocket_connections_def start_loop_threads
        start_loop_unchanged closed_between_def started_between_def needs_start_after_close
        t_currency_new_task close_loop_eq)

lemma apply_pressed_threads:
  assumes "1 \<le> length (new_selection_of (currency_vars m))"
    and "length (new_selection_of (currency_vars m)) \<le> 3"
  shows "threads (fst (apply_pressed lib (m, d)))
         = threads m @ map new_task (filter (needs_start lib m) (new_selection_of (currency_vars m)))"
  using assms
  by (simp add: apply_pressed_def apply_result Let_def start_websocket_connections_def
        start_loop_threads needs_start_after_close close_loop_eq)

text \<open>
  Claim C3 on the code. While the first connection of BTC is still being opened (no
  websocket registered yet), changing the selection from BTC to BTC and ETH starts a
  connection for BTC again, a symbol of both selections, so that two live tasks serve
  it. With a \<^verbatim>\<open>websockets\<close> package whose connections lack the property
  \<^verbatim>\<open>closed\<close>, the same change restarts BTC even while it is streaming; with one that
  has the property, only ETH is started then.
\<close>

theorem apply_restarts_connecting_symbol:
  "selected_currencies (toggle ''ETH'' btc_dialog) = [''BTC'']
   \<and> new_selection_of (currency_vars (toggle ''ETH'' btc_dialog)) = [''BTC'', ''ETH'']
   \<and> live_connections (toggle ''ETH'' btc_dialog) ''BTC'' = 1
   \<and> started_between (toggle ''ETH'' btc_dialog)
        (fst (apply_pressed lib (toggle ''ETH'' btc_dialog, no_file))) = [''BTC'', ''ETH'']
   \<and> live_connections (fst (apply_pressed lib (toggle ''ETH'' btc_dialog, no_file))) ''BTC'' = 2
   \<and> set (started_between (toggle ''ETH'' btc_dialog)
        (fst (apply_pressed lib (toggle ''ETH'' btc_dialog, no_file))))
      \<noteq> set (new_selection_of (currency_vars (toggle ''ETH'' btc_dialog)))
        - set (selected_currencies (toggle ''ETH'' btc_dialog))
   \<and> selected_currencies (toggle ''ETH'' streaming_dialog) = [''BTC'']
   \<and> new_selection_of (currency_vars (toggle ''ETH'' streaming_dialog)) = [''BTC'', ''ETH'']
   \<and> started_between (toggle ''ETH'' streaming_dialog)
        (fst (apply_pressed modern_lib (toggle ''ETH'' streaming_dialog, no_file)))
       = [''BTC'', ''ETH'']
   \<and> started_between (toggle ''ETH'' streaming_dialog)
        (fst (apply_pressed sample_lib (toggle ''ETH'' streaming_dialog, no_file))) = [''ETH'']"
proof -
  let ?a = "toggle ''ETH'' btc_dialog"
  let ?b = "toggle ''ETH'' streaming_dialog"
  have na: "new_selection_of (currency_vars ?a) = [''BTC'', ''ETH'']"
    by (simp add: toggle_def btc_dialog_vars new_selection_of_def)
  have nb: "new_selection_of (currency_vars ?b) = [''BTC'', ''ETH'']"
    by (simp add: toggle_def streaming_dialog_fields new_selection_of_def)
  have sa: "needs_start lib ?a = (\<lambda>c. True)"
    by (rule ext) (simp add: needs_start_def btc_dialog_fields)
  have sm: "needs_start modern_lib ?b = (\<lambda>c. True)"
    by (rule ext)
       (simp add: needs_start_def streaming_dialog_fields read_closed_def modern_lib_def)
  have ss: "needs_start sample_lib ?b = (\<lambda>c. c \<noteq> ''BTC'')"
    by (rule ext)
       (simp add: needs_start_def streaming_dialog_fields read_closed_def sample_lib_def)
  have ta: "threads (fst (apply_pressed lib (?a, no_file)))
      = threads ?a @ map new_task [''BTC'', ''ETH'']"
    using apply_pressed_threads [of ?a lib no_file] by (simp add: na sa)
  have tm: "threads (fst (apply_pressed modern_lib (?b, no_file)))
      = threads ?b @ map new_task [''BTC'', ''ETH'']"
    using apply_pressed_threads [of ?b modern_lib no_file] by (simp add: nb sm)
  have ts: "threads (fst (apply_pressed sample_lib (?b, no_file)))
      = threads ?b @ map new_task [''ETH'']"
    using apply_pressed_threads [of ?b sample_lib no_file] by (simp add: nb ss)
  show ?thesis
    by (simp add: na nb ta tm ts started_between_def live_connections_def new_task_def
          btc_dialog_fields streaming_dialog_fields catalog_eq)
qed

text \<open>
  Claim C6 (amended). Every selection set by \<^verbatim>\<open>load_settings\<close> has one to three
  codes, all in the catalog, and is free of duplicates when the file lists distinct
  codes; \<^verbatim>\<open>apply_currency_selection\<close> either keeps the selection or sets one of one
  to three distinct catalog codes.
\<close>

theorem selections_within_bounds:
  "(\<exists>m'. load_settings d m = Inr m'
       \<and> 1 \<le> length (selected_currencies m') \<and> length (selected_currencies m') \<le> 3
       \<and> list_all (\<lambda>c. c \<in> set catalog) (selected_currencies m')
       \<and> (contents d = Some (Doc (JObj kvs))
            \<and> map_of kvs ''selected_currencies'' = Some (JArr (map JStr codes)) \<and> distinct codes
          \<longrightarrow> valid_selection (selected_currencies m')))
   \<and> (map fst (currency_vars m) = catalog \<longrightarrow>
       (\<exists>m' d'. apply_currency_selection lib (m, d) = Inr (m', d')
          \<and> (selected_currencies m' = selected_currencies m
               \<or> valid_selection (selected_currencies m'))))"
proof -
  let ?sel = "case load_body d of Inl e \<Rightarrow> [''BTC''] | Inr sel \<Rightarrow> sel"
  have shape: "?sel \<noteq> [] \<and> length ?sel \<le> 3 \<and> set ?sel \<subseteq> set catalog"
  proof (cases "load_body d")
    case (Inl e) then show ?thesis by (simp add: catalog_eq)
  next
    case (Inr sel) with load_body_shape[OF Inr] show ?thesis by simp
  qed
  have dist: "distinct ?sel"
    if "contents d = Some (Doc (JObj kvs))"
      "map_of kvs ''selected_currencies'' = Some (JArr (map JStr codes))" "distinct codes"
  proof -
    have "saved_valid (JObj kvs) = Inr (filter (\<lambda>c. c \<in> set catalog) codes)"
      using that(2) by (simp add: saved_valid_def bind_err_def valid_of_strs)
    with that(1,3) show ?thesis
      by (simp add: load_body_def read_settings_def bind_err_def)
  qed
  have load: "\<exists>m'. load_settings d m = Inr m'
       \<and> 1 \<le> length (selected_currencies m') \<and> length (selected_currencies m') \<le> 3
       \<and> list_all (\<lambda>c. c \<in> set catalog) (selected_currencies m')
       \<and> (contents d = Some (Doc (JObj kvs))
            \<and> map_of kvs ''selected_currencies'' = Some (JArr (map JStr codes)) \<and> distinct codes
          \<longrightarrow> valid_selection (selected_currencies m'))"
    using shape dist
    by (auto simp: load_settings_result list_all_iff valid_selection_def Suc_le_eq)
  have app: "\<exists>m' d'. apply_currency_selection lib (m, d) = Inr (m', d')
          \<and> (selected_currencies m' = selected_currencies m
               \<or> valid_selection (selected_currencies m'))"
    if keys: "map fst (currency_vars m) = catalog"
  proof -
    let ?new = "new_selection_of (currency_vars m)"
    show ?thesis
    proof (cases "1 \<le> length ?new \<and> length ?new \<le> 3")
      case True
      with apply_accepted [where m = m and d = d and lib = lib] obtain m' d' where
        r: "apply_currency_selection lib (m, d) = Inr (m', d')"
        and s: "selected_currencies m' = ?new" by blast
      from candidate_in_catalog [OF keys] True s have "valid_selection (selected_currencies m')"
        by (auto simp: valid_selection_def list_all_iff)
      with r show ?thesis by blast
    next
      case False
      then have "length ?new = 0 \<or> 3 < length ?new" by linarith
      then have "apply_currency_selection lib (m, d) = Inr (m, d)" by (rule apply_ignored)
      then show ?thesis by blast
    qed
  qed
  from load app show ?thesis by blast
qed

theorem selections_within_bounds_witness:
  "contents (disk_with [''ETH'', ''DOGE'', ''BTC'']) = Some (Doc (JObj
      [(''selected_currencies'', JArr (map JStr [''ETH'', ''DOGE'', ''BTC''])),
       (''version'', JStr ''3.0'')]))
   \<and> distinct [''ETH'', ''DOGE'', ''BTC'']
   \<and> load_settings (disk_with [''ETH'', ''DOGE'', ''BTC'']) (toggle ''ETH'' btc_dialog)
       = Inr ((toggle ''ETH'' btc_dialog)\<lparr>selected_currencies := [''ETH'', ''BTC'']\<rparr>)
   \<and> valid_selection [''ETH'', ''BTC'']
   \<and> map fst (currency_vars (toggle ''ETH'' btc_dialog)) = catalog
   \<and> (\<exists>m' d'. apply_currency_selection sample_lib (toggle ''ETH'' btc_dialog, disk_with [''ETH'', ''DOGE'', ''BTC''])
                 = Inr (m', d')
          \<and> selected_currencies m' = [''BTC'', ''ETH''] \<and> valid_selection (selected_currencies m'))"
proof -
  have k: "map fst (currency_vars (toggle ''ETH'' btc_dialog)) = catalog"
    by (simp add: vars_keys_toggle btc_dialog_def vars_keys_selector)
  have n: "new_selection_of (currency_vars (toggle ''ETH'' btc_dialog)) = [''BTC'', ''ETH'']"
    by (simp add: toggle_def btc_dialog_vars new_selection_of_def)
  have l: "load_settings (disk_with [''ETH'', ''DOGE'', ''BTC'']) (toggle ''ETH'' btc_dialog)
       = Inr ((toggle ''ETH'' btc_dialog)\<lparr>selected_currencies := [''ETH'', ''BTC'']\<rparr>)"
    by (simp add: load_settings_result load_body_def read_settings_def bind_err_def disk_with_def
          saved_valid_doc catalog_eq)
  have a: "\<exists>m'. apply_currency_selection sample_lib (toggle ''ETH'' btc_dialog, disk_with [''ETH'', ''DOGE'', ''BTC''])
                 = Inr (m', disk_with [''BTC'', ''ETH'']) \<and> selected_currencies m' = [''BTC'', ''ETH'']"
    using apply_accepted [where m = "toggle ''ETH'' btc_dialog"
        and d = "disk_with [''ETH'', ''DOGE'', ''BTC'']" and lib = sample_lib]
    by (simp add: n disk_with_def)
  from selections_within_bounds [where d = "disk_with [''ETH'', ''DOGE'', ''BTC'']"
      and m = "toggle ''ETH'' btc_dialog" and lib = sample_lib
      and kvs = "[(''selected_currencies'', JArr (map JStr [''ETH'', ''DOGE'', ''BTC''])),
       (''version'', JStr ''3.0'')]" and codes = "[''ETH'', ''DOGE'', ''BTC'']"] k l a
  show ?thesis
    by (auto simp: disk_with_def settings_doc_def btc_dialog_fields)
qed

text \<open>
  Claim C6 as stated fails: a settings file that lists a code twice is loaded with the
  duplicate.
\<close>

theorem load_keeps_duplicates:
  "load_settings (disk_with [''BTC'', ''BTC'']) fresh_monitor
     = Inr (fresh_monitor\<lparr>selected_currencies := [''BTC'', ''BTC'']\<rparr>)
   \<and> \<not> valid_selection [''BTC'', ''BTC'']"
  by (simp add: load_settings_result load_body_def read_settings_def bind_err_def disk_with_def
        saved_valid_doc catalog_eq valid_selection_def)

section \<open>Reconnection and the connection tasks\<close>























lemma threads_close [simp]: "threads (close_socket h m) = threads m"
  by (simp add: close_socket_def)

















lemma close_socket_fields [simp]:
  "running (close_socket h m) = running m"
  "selected_currencies (close_socket h m) = selected_currencies m"
  by (simp_all add: close_socket_def)









lemmas run_eval =
  step_def task_step_def phase_of_def on_connection_error_def count_attempt_def Let_def
  attempts_of_def max_reconnect_attempts_def set_phase_def






text \<open>
  Without the restriction to one task per symbol the bound fails: after the Reconnect
  menu entry has started a second task for BTC, both handlers can pass the test with the
  counter at 4 and then count, which leaves the counter at 6.
\<close>

lemma not_single:
  assumes "threads m = [a, b]" and "t_currency a = t_currency b"
    and "t_phase a \<noteq> Ended" and "t_phase b \<noteq> Ended"
  shows "\<not> single_connections m"
proof
  assume "single_connections m"
  from this [unfolded single_connections_def, rule_format, of 0 1] assms show False by simp
qed

lemma duplicate_handlers_overcount:
  "attempts_of (fst (run lib racing_failures (btc_connecting, d))) ''BTC'' = 6
   \<and> \<not> singly lib racing_failures (btc_connecting, d)"
proof -
  have "attempts_of (fst (run lib racing_failures (btc_connecting, d))) ''BTC'' = 6"
    by (simp add: racing_failures_def eval_nat_numeral run_eval btc_connecting_fields
        reconnect_def start_websocket_thread_def new_task_def catalog_eq)
  moreover have "\<not> single_connections (reconnect btc_connecting)"
    by (rule not_single [where a = "\<lparr>t_currency = ''BTC'', t_phase = Connecting\<rparr>"
          and b = "\<lparr>t_currency = ''BTC'', t_phase = Connecting\<rparr>"])
       (simp_all add: reconnect_def btc_connecting_fields start_websocket_thread_def new_task_def
          catalog_eq)
  moreover have "single_connections (reconnect btc_connecting)"
    if "singly lib racing_failures (btc_connecting, d)"
  proof -
    obtain evs where "racing_failures = Reconnect # ConnectFail 0 # evs"
      by (simp add: racing_failures_def eval_nat_numeral)
    with that have "singly lib (Reconnect # ConnectFail 0 # evs) (btc_connecting, d)" by simp
    then show ?thesis by (simp add: step_def task_step_def)
  qed
  ultimately show ?thesis by blast
qed

lemma caught_error_dropped:
  assumes "running m" and "t_currency (threads m ! i) \<in> set (selected_currencies m)"
    and "parse_ticker lib msg = Inl e" and "caught_per_message e"
  shows "on_message lib i h msg m = m"
  using assms by (simp add: on_message_def Let_def)

text \<open>
  Claim C8 on the code: a decode failure that raises \<^verbatim>\<open>KeyError\<close>,
  \<^verbatim>\<open>ValueError\<close> or \<^verbatim>\<open>JSONDecodeError\<close> leaves the monitor as it is
  (\<open>caught_error_dropped\<close>), but a ticker whose price is \<^verbatim>\<open>null\<close> raises
  \<^verbatim>\<open>TypeError\<close> from \<^verbatim>\<open>float\<close>, which leaves the receive loop: the socket is
  closed and the task is in the handler, where it counts an attempt and sleeps before
  reconnecting. The price data stay as they were and no display update is scheduled.
\<close>

theorem null_price_tears_down:
  "phase_of (task_step lib (Receive 0 null_price_message) btc_streaming) 0 = Counting
   \<and> phase_of (task_step lib (Count 0)
        (task_step lib (Receive 0 null_price_message) btc_streaming)) 0 = Sleeping
   \<and> sockets btc_streaming = [False]
   \<and> sockets (task_step lib (Receive 0 null_price_message) btc_streaming) = [True]
   \<and> attempts_of btc_streaming ''BTC'' = 0
   \<and> attempts_of (task_step lib (Count 0)
        (task_step lib (Receive 0 null_price_message) btc_streaming)) ''BTC'' = 1
   \<and> currency_data (task_step lib (Count 0)
        (task_step lib (Receive 0 null_price_message) btc_streaming))
       = currency_data btc_streaming
   \<and> gui_queue (task_step lib (Count 0)
        (task_step lib (Receive 0 null_price_message) btc_streaming))
       = gui_queue btc_streaming"
  by (simp add: btc_streaming_def on_connected_def Let_def btc_connecting_fields set_phase_def
        task_step_def phase_of_def on_message_def null_price_message_def parse_ticker_def
        json_loads_def bind_err_def caught_per_message_def on_connection_error_def
        count_attempt_def close_socket_def attempts_of_def max_reconnect_attempts_def)

text \<open>
  Claim C9 on the code: \<^verbatim>\<open>reconnect\<close> starts a task for a symbol whose connection is
  streaming, after which two tasks stream the same symbol on two open sockets; and
  \<^verbatim>\<open>start_websocket_connections\<close>, called again before the first connection has
  registered its websocket, starts a second task as well.
\<close>

theorem reconnect_duplicates_connection:
  "live_connections btc_streaming ''BTC'' = 1
   \<and> live_connections (reconnect btc_streaming) ''BTC'' = 2
   \<and> map t_phase (threads (task_step lib (ConnectOK 1) (reconnect btc_streaming)))
       = [Streaming 0, Streaming 1]
   \<and> sockets (task_step lib (ConnectOK 1) (reconnect btc_streaming)) = [False, False]
   \<and> live_connections (start_websocket_connections lib btc_connecting) ''BTC'' = 2"
  by (simp add: btc_streaming_def on_connected_def Let_def btc_connecting_fields set_phase_def
        task_step_def phase_of_def reconnect_def start_websocket_thread_def new_task_def
        catalog_eq live_connections_def start_websocket_connections_def needs_start_def)

section \<open>The formatted price\<close>

lemma is_digit_digit_char: "is_digit (digit_char n)"
proof -
  have "n mod 10 < length ''0123456789''" by simp
  then have "''0123456789'' ! (n mod 10) \<in> set ''0123456789''" by (rule nth_mem)
  then show ?thesis by (simp only: is_digit_def digit_char_def)
qed

lemma comma_not_digit: "is_digit c \<Longrightarrow> c \<noteq> CHR '',''"
  by (auto simp: is_digit_def)

lemma dot_not_digit: "is_digit c \<Longrightarrow> c \<noteq> CHR ''.''"
  by (auto simp: is_digit_def)

lemma length_zpad: "length (zpad d n) = d"
  by (induction d arbitrary: n) simp_all

lemma zpad_digits: "list_all is_digit (zpad d n)"
  by (induction d arbitrary: n) (simp_all add: is_digit_digit_char)

lemma digits_small: "n < 10 \<Longrightarrow> digits n = [digit_char n]"
  by (subst digits.simps) simp

lemma digits_step: "\<not> n < 10 \<Longrightarrow> digits n = digits (n div 10) @ [digit_char n]"
  by (subst digits.simps) simp

lemma digits_all: "list_all is_digit (digits n)"
proof (induction n rule: digits.induct)
  case (1 n)
  then show ?case
    by (cases "n < 10") (simp_all add: digits_small digits_step is_digit_digit_char)
qed

lemma length_digits_small:
  assumes "n < 1000"
  shows "1 \<le> length (digits n) \<and> length (digits n) \<le> 3"
proof (cases "n < 10")
  case True then show ?thesis by (simp add: digits_small)
next
  case a: False
  show ?thesis
  proof (cases "n div 10 < 10")
    case True with a show ?thesis by (simp add: digits_small digits_step)
  next
    case b: False
    from assms have "n div 10 div 10 < 10" by simp
    with a b show ?thesis by (simp add: digits_small digits_step)
  qed
qed

lemma comma_groups_nonempty: "comma_groups s \<noteq> []"
  by (induction s) (auto split: list.splits)

lemma comma_groups_plain: "list_all is_digit s \<Longrightarrow> comma_groups s = [s]"
  by (induction s) (auto dest: comma_not_digit)

lemma comma_groups_append:
  "comma_groups (a @ CHR '','' # b) = comma_groups a @ comma_groups b"
proof (induction a)
  case Nil show ?case by simp
next
  case (Cons x a)
  obtain g gs where "comma_groups a = g # gs"
    using comma_groups_nonempty [of a] by (cases "comma_groups a") auto
  with Cons show ?case by simp
qed

lemma group3_small: "n < 1000 \<Longrightarrow> group3 n = digits n"
  by (subst group3.simps) simp

lemma group3_step:
  "\<not> n < 1000 \<Longrightarrow> group3 n = group3 (n div 1000) @ CHR '','' # zpad 3 (n mod 1000)"
  by (subst group3.simps) simp

lemma well_grouped_group3: "well_grouped (group3 n)"
proof (induction n rule: group3.induct)
  case (1 n)
  show ?case
  proof (cases "n < 1000")
    case True
    with length_digits_small [OF True] show ?thesis
      by (simp add: group3_small well_grouped_def comma_groups_plain digits_all)
  next
    case False
    with "1" have ih: "well_grouped (group3 (n div 1000))" by blast
    obtain g gs where cg: "comma_groups (group3 (n div 1000)) = g # gs"
      using comma_groups_nonempty [of "group3 (n div 1000)"]
      by (cases "comma_groups (group3 (n div 1000))") auto
    let ?z = "zpad 3 (n mod 1000)"
    have z: "comma_groups ?z = [?z]"
      by (rule comma_groups_plain) (rule zpad_digits)
    have "group3 n = group3 (n div 1000) @ CHR '','' # ?z"
      using False by (rule group3_step)
    then have "comma_groups (group3 n) = g # (gs @ [?z])"
      by (simp only: comma_groups_append cg z append_Cons)
    moreover from ih cg have "1 \<le> length g \<and> length g \<le> 3 \<and> list_all is_digit g
        \<and> list_all (\<lambda>h. length h = 3 \<and> list_all is_digit h) gs"
      by (simp add: well_grouped_def)
    moreover have "length ?z = 3 \<and> list_all is_digit ?z"
      by (simp only: length_zpad zpad_digits)
    ultimately show ?thesis
      by (simp add: well_grouped_def del: zpad.simps)
  qed
qed

lemma group3_chars: "c \<in> set (group3 n) \<Longrightarrow> is_digit c \<or> c = CHR '',''"
proof (induction n rule: group3.induct)
  case (1 n)
  show ?case
  proof (cases "n < 1000")
    case True
    with "1.prems" digits_all [of n] show ?thesis
      by (auto simp: group3_small list_all_iff)
  next
    case False
    with "1" zpad_digits [of 3 "n mod 1000"] show ?thesis
      by (auto simp: group3_step list_all_iff)
  qed
qed

lemma dot_not_in_group3: "CHR ''.'' \<notin> set (group3 n)"
  using group3_chars [of "CHR ''.''" n] by (auto simp: is_digit_def)

lemma split_at_char_append:
  "c \<notin> set a \<Longrightarrow> split_at_char c (a @ c # b) = Some (a, b)"
  by (induction a) auto

lemma format_fixed_places:
  "0 < d \<Longrightarrow> decimal_places_ok (format_fixed d (Finite False m e)) d"
  by (simp add: Let_def decimal_places_ok_def split_at_char_append dot_not_in_group3
        well_grouped_group3 length_zpad zpad_digits)

lemma float_lt_value:
  "float_lt (Finite s m e) k = (float_value (Finite s m e) < of_int k)"
proof -
  let ?v = "if s then - int m else int m"
  show ?thesis
  proof (cases "0 \<le> e")
    case True
    have "(?v * 2 ^ nat e < k) = (real_of_int (?v * 2 ^ nat e) < of_int k)"
      by (simp only: of_int_less_iff)
    then show ?thesis using True by (simp add: Let_def)
  next
    case False
    have "(?v < k * 2 ^ nat (- e)) = (real_of_int ?v < real_of_int (k * 2 ^ nat (- e)))"
      by (simp only: of_int_less_iff)
    also have "\<dots> = (real_of_int ?v / 2 ^ nat (- e) < of_int k)"
      by (simp add: pos_divide_less_eq)
    finally show ?thesis using False by (simp add: Let_def)
  qed
qed

lemma format_price_table:
  "format_price (Finite s m e)
     = format_fixed (table_places (float_value (Finite s m e))) (Finite s m e)"
  using float_lt_value [of s m e 10] float_lt_value [of s m e 100] float_lt_value [of s m e 10000]
  by (simp add: format_price_def table_places_def del: float_lt.simps float_value.simps format_fixed.simps)

lemma zpad_numeral: "zpad (numeral k) n = zpad (pred_numeral k) (n div 10) @ [digit_char n]"
proof -
  have "zpad (Suc (pred_numeral k)) n = zpad (pred_numeral k) (n div 10) @ [digit_char n]"
    by (rule zpad.simps)
  then show ?thesis by (simp only: numeral_eq_Suc [symmetric])
qed

lemmas format_eval =
  format_price_def Let_def scaled_def round_half_even_def zpad_numeral digits.simps
  group3.simps digit_char_def

lemma places_by_bucket:
  assumes "P (table_places v)"
  shows "(v < 10 \<longrightarrow> P 4) \<and> (10 \<le> v \<and> v < 100 \<longrightarrow> P 3)
     \<and> (100 \<le> v \<and> v < 10000 \<longrightarrow> P 2) \<and> (10000 \<le> v \<longrightarrow> P 1)"
  using assms by (auto simp: table_places_def split: if_splits)

lemma digit_value_digit_char: "digit_value (digit_char n) = n mod 10"
proof -
  have "n mod 10 < 10" by simp
  then have "n mod 10 = 0 \<or> n mod 10 = 1 \<or> n mod 10 = 2 \<or> n mod 10 = 3 \<or> n mod 10 = 4
    \<or> n mod 10 = 5 \<or> n mod 10 = 6 \<or> n mod 10 = 7 \<or> n mod 10 = 8 \<or> n mod 10 = 9"
    by arith
  then show ?thesis
    by (elim disjE) (simp_all add: digit_value_def digit_char_def)
qed

lemma read_acc_append: "read_acc a (xs @ ys) = read_acc (read_acc a xs) ys"
  by (induction xs arbitrary: a) simp_all

lemma read_acc_zpad: "read_acc a (zpad d n) = a * 10 ^ d + n mod 10 ^ d"
proof (induction d arbitrary: n)
  case 0 show ?case by simp
next
  case (Suc d)
  have "n mod (10 * 10 ^ d) = 10 * (n div 10 mod 10 ^ d) + n mod 10"
    by (simp add: mod_mult2_eq)
  then show ?case
    by (simp add: read_acc_append is_digit_digit_char digit_value_digit_char Suc.IH algebra_simps)
qed

lemma read_acc_digits: "read_acc 0 (digits n) = n"
proof (induction n rule: digits.induct)
  case (1 n)
  show ?case
  proof (cases "n < 10")
    case True then show ?thesis
      by (simp add: digits_small is_digit_digit_char digit_value_digit_char)
  next
    case False
    with "1" have "read_acc 0 (digits (n div 10)) = n div 10" by blast
    with False show ?thesis
      by (simp add: digits_step read_acc_append is_digit_digit_char digit_value_digit_char)
  qed
qed

lemma read_acc_group3: "read_acc 0 (group3 n) = n"
proof (induction n rule: group3.induct)
  case (1 n)
  show ?case
  proof (cases "n < 1000")
    case True then show ?thesis by (simp add: group3_small read_acc_digits)
  next
    case False
    with "1" have ih: "read_acc 0 (group3 (n div 1000)) = n div 1000" by blast
    have "\<not> is_digit CHR '',''" by (simp add: is_digit_def)
    with False ih have "read_acc 0 (group3 n) = read_acc (n div 1000) (zpad 3 (n mod 1000))"
      by (simp add: group3_step read_acc_append del: zpad.simps)
    also have "\<dots> = n div 1000 * 10 ^ 3 + n mod 1000 mod 10 ^ 3" by (rule read_acc_zpad)
    also have "\<dots> = n" by simp
    finally show ?thesis .
  qed
qed

lemma read_digits_fixed:
  assumes "0 < d"
  shows "read_digits (format_fixed d (Finite False m e)) = scaled m e d"
proof -
  let ?n = "scaled m e d"
  have nd: "\<not> is_digit CHR ''.''" by (simp add: is_digit_def)
  have "read_digits (format_fixed d (Finite False m e))
      = read_acc 0 (group3 (?n div 10 ^ d) @ CHR ''.'' # zpad d (?n mod 10 ^ d))"
    using assms by (simp add: read_digits_def Let_def)
  also have "\<dots> = read_acc (?n div 10 ^ d) (zpad d (?n mod 10 ^ d))"
    using nd by (simp add: read_acc_append read_acc_group3)
  also have "\<dots> = ?n div 10 ^ d * 10 ^ d + ?n mod 10 ^ d mod 10 ^ d" by (rule read_acc_zpad)
  also have "\<dots> = ?n" by (simp only: mod_mod_trivial div_mult_mod_eq)
  finally show ?thesis .
qed

lemma round_half_even_err:
  assumes "0 < b"
  shows "2 * \<bar>round_half_even a b * b - a\<bar> \<le> b"
proof -
  define q where "q = a div b"
  define r where "r = a mod b"
  have a: "a = q * b + r" by (simp add: q_def r_def)
  have r: "0 \<le> r" "r < b" using assms by (simp_all add: r_def)
  have q1: "(q + 1) * b = q * b + b" by (simp add: algebra_simps)
  have "round_half_even a b = q \<and> 2 * r \<le> b \<or> round_half_even a b = q + 1 \<and> b \<le> 2 * r"
    by (auto simp: round_half_even_def Let_def q_def r_def)
  then show ?thesis
  proof
    assume "round_half_even a b = q \<and> 2 * r \<le> b"
    with a r show ?thesis by simp
  next
    assume h: "round_half_even a b = q + 1 \<and> b \<le> 2 * r"
    then have "round_half_even a b * b - a = b - r" using a q1 by simp
    with h r show ?thesis by simp
  qed
qed

lemma round_half_even_nonneg:
  assumes "0 \<le> a" and "0 < b"
  shows "0 \<le> round_half_even a b"
proof -
  have "0 \<le> a div b" using assms by (simp add: pos_imp_zdiv_nonneg_iff)
  then show ?thesis by (auto simp: round_half_even_def Let_def)
qed

lemma scaled_error:
  "\<bar>real (scaled m e d) - float_value (Finite False m e) * 10 ^ d\<bar> \<le> 1 / 2"
proof (cases "0 \<le> e")
  case True
  then show ?thesis by (simp add: scaled_def)
next
  case False
  let ?b = "2 ^ nat (- e) :: int"
  let ?a = "int m * 10 ^ d"
  let ?r = "round_half_even ?a ?b"
  have b: "0 < ?b" by simp
  have r0: "0 \<le> ?r" by (rule round_half_even_nonneg) simp_all
  have sc: "real (scaled m e d) = of_int ?r"
    using False r0 by (simp add: scaled_def)
  have fv: "float_value (Finite False m e) * 10 ^ d = of_int ?a / of_int ?b"
    using False by simp
  have "2 * \<bar>?r * ?b - ?a\<bar> \<le> ?b" using b by (rule round_half_even_err)
  then have "real_of_int (2 * \<bar>?r * ?b - ?a\<bar>) \<le> real_of_int ?b" by (simp only: of_int_le_iff)
  then have e: "2 * \<bar>real_of_int ?r * real_of_int ?b - real_of_int ?a\<bar> \<le> real_of_int ?b"
    by simp
  have bp: "0 < real_of_int ?b" by simp
  have "real_of_int ?r - real_of_int ?a / real_of_int ?b
      = (real_of_int ?r * real_of_int ?b - real_of_int ?a) / real_of_int ?b"
    using bp by (simp add: field_simps)
  then have "\<bar>real_of_int ?r - real_of_int ?a / real_of_int ?b\<bar>
      = \<bar>real_of_int ?r * real_of_int ?b - real_of_int ?a\<bar> / real_of_int ?b"
    using bp by (simp add: abs_divide del: of_int_power of_int_mult)
  also have "\<dots> \<le> 1 / 2"
    using e bp by (simp add: field_simps del: of_int_power of_int_mult)
  finally show ?thesis by (simp only: sc fv)
qed

lemma format_price_value:
  "\<bar>real (read_digits (format_price (Finite False m e)))
      - float_value (Finite False m e) * 10 ^ table_places (float_value (Finite False m e))\<bar>
   \<le> 1 / 2"
proof -
  have "0 < table_places (float_value (Finite False m e))" by (simp add: table_places_def)
  then show ?thesis
    unfolding format_price_table
    by (simp only: read_digits_fixed scaled_error)
qed

text \<open>
  Claim C1. Every non-negative finite price is printed by the format with the number of
  decimals that the bucket table gives for its value, and the number its digits write
  differs from the price by at most half a unit of the last decimal. The text has a
  comma-grouped integer part, a decimal point, and four decimals when the price is
  below 10, three from 10 to below 100, two from 100 to below 10000, and one from 10000
  on; a price of exactly 10, 100 or 10000 is printed by the rule of the larger prices.
  The doubles nearest to 0.0514, 3456.789 and 67890.12 are printed as \<^verbatim>\<open>0.0514\<close>,
  \<^verbatim>\<open>3,456.79\<close> and \<^verbatim>\<open>67,890.1\<close>.
\<close>

theorem format_price_buckets:
  "format_price (Finite False m e)
     = format_fixed (table_places (float_value (Finite False m e))) (Finite False m e)
   \<and> \<bar>real (read_digits (format_price (Finite False m e)))
        - float_value (Finite False m e) * 10 ^ table_places (float_value (Finite False m e))\<bar>
      \<le> 1 / 2
   \<and> (float_value (Finite False m e) < 10
      \<longrightarrow> decimal_places_ok (format_price (Finite False m e)) 4)
   \<and> (10 \<le> float_value (Finite False m e) \<and> float_value (Finite False m e) < 100
      \<longrightarrow> decimal_places_ok (format_price (Finite False m e)) 3)
   \<and> (100 \<le> float_value (Finite False m e) \<and> float_value (Finite False m e) < 10000
      \<longrightarrow> decimal_places_ok (format_price (Finite False m e)) 2)
   \<and> (10000 \<le> float_value (Finite False m e)
      \<longrightarrow> decimal_places_ok (format_price (Finite False m e)) 1)
   \<and> format_price (Finite False 10 0) = ''10.000''
   \<and> format_price (Finite False 100 0) = ''100.00''
   \<and> format_price (Finite False 10000 0) = ''10,000.0''
   \<and> nearest_double 7407520667098992 (- 57) 514 4
   \<and> format_price (Finite False 7407520667098992 (- 57)) = ''0.0514''
   \<and> nearest_double 7601559400536343 (- 41) 3456789 3
   \<and> format_price (Finite False 7601559400536343 (- 41)) = ''3,456.79''
   \<and> nearest_double 4665373521944248 (- 36) 6789012 2
   \<and> format_price (Finite False 4665373521944248 (- 36)) = ''67,890.1''"
proof -
  let ?x = "Finite False m e"
  have places: "decimal_places_ok (format_price ?x) (table_places (float_value ?x))"
    unfolding format_price_table
    by (rule format_fixed_places) (simp add: table_places_def)
  have b1: "float_value ?x < 10 \<longrightarrow> decimal_places_ok (format_price ?x) 4"
    and b2: "10 \<le> float_value ?x \<and> float_value ?x < 100
      \<longrightarrow> decimal_places_ok (format_price ?x) 3"
    and b3: "100 \<le> float_value ?x \<and> float_value ?x < 10000
      \<longrightarrow> decimal_places_ok (format_price ?x) 2"
    and b4: "10000 \<le> float_value ?x \<longrightarrow> decimal_places_ok (format_price ?x) 1"
    using places_by_bucket [where P = "decimal_places_ok (format_price ?x)" and v = "float_value ?x", OF places] by blast+
  have ex: "format_price (Finite False 10 0) = ''10.000''"
    "format_price (Finite False 100 0) = ''100.00''"
    "format_price (Finite False 10000 0) = ''10,000.0''"
    "format_price (Finite False 7407520667098992 (- 57)) = ''0.0514''"
    "format_price (Finite False 7601559400536343 (- 41)) = ''3,456.79''"
    "format_price (Finite False 4665373521944248 (- 36)) = ''67,890.1''"
    by (simp_all add: format_eval)
  have nd: "nearest_double 7407520667098992 (- 57) 514 4"
    "nearest_double 7601559400536343 (- 41) 3456789 3"
    "nearest_double 4665373521944248 (- 36) 6789012 2"
    by (simp_all add: nearest_double_def)
  note eq = format_price_table [of False m e]
  note val = format_price_value [of m e]
  show ?thesis
    by (intro conjI) (rule eq val b1 b2 b3 b4 ex nd)+
qed

theorem format_price_buckets_witness:
  "float_value (Finite False 7407520667098992 (- 57)) < 10
   \<and> decimal_places_ok (format_price (Finite False 7407520667098992 (- 57))) 4
   \<and> 10 \<le> float_value (Finite False 6949617174986097 (- 49))
   \<and> float_value (Finite False 6949617174986097 (- 49)) < 100
   \<and> decimal_places_ok (format_price (Finite False 6949617174986097 (- 49))) 3
   \<and> 100 \<le> float_value (Finite False 7601559400536343 (- 41))
   \<and> float_value (Finite False 7601559400536343 (- 41)) < 10000
   \<and> decimal_places_ok (format_price (Finite False 7601559400536343 (- 41))) 2
   \<and> 10000 \<le> float_value (Finite False 4665373521944248 (- 36))
   \<and> decimal_places_ok (format_price (Finite False 4665373521944248 (- 36))) 1"
proof -
  have v1: "float_value (Finite False 7407520667098992 (- 57)) < 10" by simp
  have v2: "10 \<le> float_value (Finite False 6949617174986097 (- 49))
      \<and> float_value (Finite False 6949617174986097 (- 49)) < 100" by simp
  have v3: "100 \<le> float_value (Finite False 7601559400536343 (- 41))
      \<and> float_value (Finite False 7601559400536343 (- 41)) < 10000" by simp
  have v4: "10000 \<le> float_value (Finite False 4665373521944248 (- 36))" by simp
  note w1 = format_price_buckets [of 7407520667098992 "- 57", THEN conjunct2, THEN conjunct2,
      THEN conjunct1, THEN mp, OF v1]
  note w2 = format_price_buckets [of 6949617174986097 "- 49", THEN conjunct2, THEN conjunct2,
      THEN conjunct2, THEN conjunct1,
      THEN mp, OF v2]
  note w3 = format_price_buckets [of 7601559400536343 "- 41", THEN conjunct2, THEN conjunct2,
      THEN conjunct2, THEN conjunct2,
      THEN conjunct1, THEN mp, OF v3]
  note w4 = format_price_buckets [of 4665373521944248 "- 36", THEN conjunct2, THEN conjunct2,
      THEN conjunct2, THEN conjunct2,
      THEN conjunct2, THEN conjunct1, THEN mp, OF v4]
  from v2 have v2a: "10 \<le> float_value (Finite False 6949617174986097 (- 49))"
    and v2b: "float_value (Finite False 6949617174986097 (- 49)) < 100"
    by (rule conjunct1, rule conjunct2)
  from v3 have v3a: "100 \<le> float_value (Finite False 7601559400536343 (- 41))"
    and v3b: "float_value (Finite False 7601559400536343 (- 41)) < 10000"
    by (rule conjunct1, rule conjunct2)
  show ?thesis
    by (intro conjI) (rule v1 w1 v2a v2b w2 v3a v3b w3 v4 w4)+
qed

text \<open>The sample ticker of the specification, decoded with the sample runtime.\<close>

lemma sample_ticker_decoded:
  "parse_ticker sample_lib
     (Json (JObj [(''c'', JStr ''67890.12''), (''P'', JStr ''1.50'')]))
   = Inr \<lparr>price = ''67,890.1'', price_change = Finite False 6755399441055744 (- 52),
          change_24h = Finite False 6755399441055744 (- 52)\<rparr>"
  by (simp add: parse_ticker_def json_loads_def bind_err_def sample_lib_def format_eval)

end
